theory Spec2Isabelle
  imports Main "HOL-Library.Multiset"
begin

section \<open>Python values used by the script\<close>

subsection \<open>Dictionaries\<close>

text \<open>
  A Python \<^verbatim>\<open>dict\<close> keeps its keys in insertion order and holds every key once.
  It is modelled as an association list; \<open>dict_set\<close> is \<^verbatim>\<open>d[k] = v\<close>: an
  existing key keeps its position and gets the new value, a new key goes to the end.
\<close>

type_synonym ('k, 'v) dict = "('k \<times> 'v) list"

fun dict_set :: "('k, 'v) dict \<Rightarrow> 'k \<Rightarrow> 'v \<Rightarrow> ('k, 'v) dict" where
  "dict_set [] k v = [(k, v)]"
| "dict_set ((k', v') # d) k v =
     (if k' = k then (k, v) # d else (k', v') # dict_set d k v)"

definition dict_get :: "('k, 'v) dict \<Rightarrow> 'k \<Rightarrow> 'v option" where
  \<comment> \<open>\<^verbatim>\<open>d.get(k)\<close>: \<open>None\<close> for a key that is not there.\<close>
  "dict_get d k = map_of d k"

definition dict_keys :: "('k, 'v) dict \<Rightarrow> 'k list" where
  "dict_keys d = map fst d"

definition is_dict :: "('k, 'v) dict \<Rightarrow> bool" where
  \<comment> \<open>The invariant of every Python dict: no key twice.\<close>
  "is_dict d = distinct (map fst d)"

definition fromkeys :: "'k list \<Rightarrow> ('k, unit) dict" where
  \<comment> \<open>\<^verbatim>\<open>dict.fromkeys(ks)\<close>: every key of \<open>ks\<close> in turn, each with the value None.\<close>
  "fromkeys ks = fold (\<lambda>k d. dict_set d k ()) ks []"

subsection \<open>Strings\<close>

text \<open>
  Strings are lists of characters with code points below 256. \<open>isspace\<close> holds for
  the characters that \<^verbatim>\<open>str.strip()\<close> removes in that range and \<open>lower_char\<close>
  is \<^verbatim>\<open>str.lower()\<close> on one character of that range.
\<close>

definition isspace :: "char \<Rightarrow> bool" where
  "isspace c = (let n = (of_char c :: nat) in
      (9 \<le> n \<and> n \<le> 13) \<or> (28 \<le> n \<and> n \<le> 32) \<or> n = 133 \<or> n = 160)"

definition strip :: "string \<Rightarrow> string" where
  "strip s = rev (dropWhile isspace (rev (dropWhile isspace s)))"

definition lower_char :: "char \<Rightarrow> char" where
  "lower_char c = (let n = (of_char c :: nat) in
      if (65 \<le> n \<and> n \<le> 90) \<or> (192 \<le> n \<and> n \<le> 222 \<and> n \<noteq> 215)
      then char_of (n + 32) else c)"

definition lower :: "string \<Rightarrow> string" where
  "lower s = map lower_char s"

definition endswith :: "string \<Rightarrow> string \<Rightarrow> bool" where
  "endswith s suf = (length suf \<le> length s \<and> drop (length s - length suf) s = suf)"

definition split_first :: "char \<Rightarrow> string \<Rightarrow> string \<times> string" where
  \<comment> \<open>\<^verbatim>\<open>s.split(sep, 1)\<close> for a string that contains \<open>sep\<close>: the part before the
      first separator and the part after it.\<close>
  "split_first sep s =
     (takeWhile (\<lambda>c. c \<noteq> sep) s, drop 1 (dropWhile (\<lambda>c. c \<noteq> sep) s))"

definition path_join :: "string \<Rightarrow> string \<Rightarrow> string" where
  \<comment> \<open>\<^verbatim>\<open>os.path.join(a, b)\<close> on a POSIX system.\<close>
  "path_join a b =
     (if take 1 b = ''/'' then b
      else if a = [] \<or> endswith a ''/'' then a @ b
      else a @ ''/'' @ b)"

section \<open>The world outside the script\<close>

text \<open>
  An XML element as \<^verbatim>\<open>xml.etree.ElementTree\<close> presents it: its tag, its text
  (\<open>None\<close> for an element with no text content, such as \<^verbatim>\<open><name/>\<close>) and its
  children in document order.
\<close>

datatype element = Element (elem_tag: string) (elem_text: "string option")
  (elem_children: "element list")

text \<open>
  The exceptions, by the classes that the script's handlers tell apart:
  \<^verbatim>\<open>ET.ParseError\<close>; a \<^verbatim>\<open>SyntaxError\<close> that is not a ParseError (ParseError is a
  subclass of it, so \<^verbatim>\<open>except ET.ParseError\<close> does not catch it); \<^verbatim>\<open>IOError\<close>, which
  is \<^verbatim>\<open>OSError\<close> with its subclasses; and any exception of another class
  (ValueError, KeyError, TypeError, LookupError and so on). Each carries its message.
\<close>

datatype exn = ParseError string | SyntaxError string | IOError string | OtherError string

record table =
  columns :: "string list"
  rows :: "string option list list"

text \<open>
  The library calls of the script are fields of the environment. Each of them can raise:
  \<open>Inl e\<close> is the exception \<open>e\<close>.
  \<^item> \<open>listdir\<close> is \<^verbatim>\<open>os.listdir\<close>, in whatever order the system answers; it raises
    for a folder that cannot be listed;
  \<^item> \<open>et_parse\<close> is \<^verbatim>\<open>ET.parse(path).getroot()\<close>: the root of a well-formed
    document, \<open>ParseError\<close> for a malformed one, \<open>IOError\<close> for a file that cannot be
    opened;
  \<^item> \<open>et_find\<close> is \<^verbatim>\<open>Element.find\<close>: the first node that a path expression
    selects from an element, if any; it raises for a path that the library rejects,
    \<open>SyntaxError\<close> for an absolute path;
  \<^item> \<open>readlines\<close> is \<^verbatim>\<open>open(path, 'r')\<close> followed by \<^verbatim>\<open>readlines()\<close>;
  \<^item> \<open>to_excel\<close> is \<^verbatim>\<open>df.to_excel(path, index=False)\<close> for a table \<open>df\<close>: \<open>None\<close>
    when the call returns, the exception when the destination cannot be written.
\<close>

record env =
  listdir :: "string \<Rightarrow> exn + string list"
  et_parse :: "string \<Rightarrow> exn + element"
  et_find :: "element \<Rightarrow> string \<Rightarrow> exn + element option"
  readlines :: "string \<Rightarrow> exn + string list"
  to_excel :: "string \<Rightarrow> table \<Rightarrow> exn option"

type_synonym field_mapping = "(string, string) dict"
type_synonym field_record = "(string, string option) dict"

text \<open>
  A function of the script returns the lines it printed together with its outcome:
  \<open>Inl e\<close> is the exception \<open>e\<close> leaving the function, \<open>Inr v\<close> is \<^verbatim>\<open>return v\<close>.
\<close>

type_synonym 'a outcome = "string list \<times> (exn + 'a)"

section \<open>The extractors\<close>

definition node_text :: "element option \<Rightarrow> string option" where
  \<comment> \<open>\<^verbatim>\<open>element.text if element is not None else None\<close>\<close>
  "node_text element = (case element of Some node \<Rightarrow> elem_text node | None \<Rightarrow> None)"

fun xml_fields ::
  "env \<Rightarrow> element \<Rightarrow> (string \<times> string) list \<Rightarrow> field_record \<Rightarrow> exn + field_record" where
  \<comment> \<open>The loop over \<^verbatim>\<open>data_mapping.items()\<close>; an exception of \<^verbatim>\<open>root.find\<close> ends it.\<close>
  "xml_fields w root [] record = Inr record"
| "xml_fields w root ((column_name, xml_path) # rest) record =
     (case et_find w root xml_path of
        Inl e \<Rightarrow> Inl e
      | Inr element \<Rightarrow>
          xml_fields w root rest (dict_set record column_name (node_text element)))"

definition xml_try :: "env \<Rightarrow> string \<Rightarrow> field_mapping \<Rightarrow> exn + field_record" where
  \<comment> \<open>The body of the \<^verbatim>\<open>try\<close> block of \<^verbatim>\<open>extract_from_xml\<close>.\<close>
  "xml_try w xml_file data_mapping =
     (case et_parse w xml_file of
        Inl e \<Rightarrow> Inl e
      | Inr root \<Rightarrow> xml_fields w root data_mapping [])"

definition extract_from_xml ::
  "env \<Rightarrow> string \<Rightarrow> field_mapping \<Rightarrow> field_record option outcome" where
  \<comment> \<open>\<^verbatim>\<open>except ET.ParseError\<close> is the only handler.\<close>
  "extract_from_xml w xml_file data_mapping =
     (case xml_try w xml_file data_mapping of
        Inr record \<Rightarrow> ([], Inr (Some record))
      | Inl exc \<Rightarrow>
          (case exc of
             ParseError e \<Rightarrow>
               ([''[ERROR] Failed to parse XML file '' @ [CHR 0x27] @ xml_file @ [CHR 0x27]
                   @ '': '' @ e], Inr None)
           | _ \<Rightarrow> ([], Inl exc)))"

definition met_file_data :: "string list \<Rightarrow> (string, string) dict" where
  \<comment> \<open>The loop over the lines of a key-value file.\<close>
  "met_file_data lines =
     fold (\<lambda>line file_data.
             if CHR '':'' \<in> set line
             then (let (key, val) = split_first CHR '':'' line
                   in dict_set file_data (strip key) (strip val))
             else file_data)
          lines []"

definition extract_from_met ::
  "env \<Rightarrow> string \<Rightarrow> field_mapping \<Rightarrow> field_record option outcome" where
  \<comment> \<open>\<^verbatim>\<open>except IOError\<close> is the only handler.\<close>
  "extract_from_met w met_file data_mapping =
     (case readlines w met_file of
        Inr lines \<Rightarrow>
          (let file_data = met_file_data lines
           in ([], Inr (Some (fold (\<lambda>(column_name, met_key) record.
                   dict_set record column_name (dict_get file_data met_key))
                 data_mapping []))))
      | Inl exc \<Rightarrow>
          (case exc of
             IOError e \<Rightarrow>
               ([''[ERROR] Failed to read .met file '' @ [CHR 0x27] @ met_file @ [CHR 0x27]
                   @ '': '' @ e], Inr None)
           | _ \<Rightarrow> ([], Inl exc)))"

section \<open>The folder processor\<close>

definition data_frame :: "field_record list \<Rightarrow> string list \<Rightarrow> table" where
  \<comment> \<open>\<^verbatim>\<open>pd.DataFrame(all_records, columns=all_columns)\<close>: one row for each record,
      one cell for each column, empty where the record has no such field or holds None.\<close>
  "data_frame all_records all_columns =
     \<lparr>columns = all_columns,
      rows = map (\<lambda>record. map (\<lambda>c. case dict_get record c of
                                        Some v \<Rightarrow> v | None \<Rightarrow> None) all_columns)
                 all_records\<rparr>"

definition all_columns :: "field_mapping \<Rightarrow> field_mapping \<Rightarrow> string list" where
  "all_columns xml_mapping met_mapping =
     dict_keys (fromkeys (dict_keys xml_mapping @ dict_keys met_mapping))"

definition process_file ::
  "env \<Rightarrow> string \<Rightarrow> field_mapping \<Rightarrow> field_mapping \<Rightarrow> string
     \<Rightarrow> field_record option outcome" where
  \<comment> \<open>The body of the loop up to the test of \<open>record\<close>. The branch for \<^verbatim>\<open>.met\<close>
      files is commented out in the source, so there is none here.\<close>
  "process_file w folder_path xml_mapping met_mapping filename =
     (let file_path = path_join folder_path filename
      in if endswith (lower filename) ''.xml''
         then (let (out, r) = extract_from_xml w file_path xml_mapping
               in ((''  -> Extracting XML: '' @ filename) # out, r))
         else ([], Inr None))"

definition truthy :: "field_record option \<Rightarrow> bool" where
  \<comment> \<open>\<^verbatim>\<open>if record:\<close> holds for a dict that is neither None nor empty.\<close>
  "truthy record = (case record of None \<Rightarrow> False | Some d \<Rightarrow> d \<noteq> [])"

fun scan_entries ::
  "env \<Rightarrow> string \<Rightarrow> field_mapping \<Rightarrow> field_mapping \<Rightarrow> string list
     \<Rightarrow> string list \<Rightarrow> field_record list \<Rightarrow> field_record list outcome" where
  "scan_entries w folder_path xml_mapping met_mapping [] out all_records =
     (out, Inr all_records)"
| "scan_entries w folder_path xml_mapping met_mapping (filename # rest) out all_records =
     (case process_file w folder_path xml_mapping met_mapping filename of
        (lines, Inl e) \<Rightarrow> (out @ lines, Inl e)
      | (lines, Inr record) \<Rightarrow>
          scan_entries w folder_path xml_mapping met_mapping rest (out @ lines)
            (if truthy record then all_records @ [the record] else all_records))"

definition scan_folder ::
  "env \<Rightarrow> string \<Rightarrow> field_mapping \<Rightarrow> field_mapping \<Rightarrow> field_record list outcome" where
  \<comment> \<open>The script up to the end of its loop over \<^verbatim>\<open>os.listdir(folder_path)\<close>. The
      first line is printed before the folder is listed.\<close>
  "scan_folder w folder_path xml_mapping met_mapping =
     (case listdir w folder_path of
        Inl e \<Rightarrow> ([CHR 0x0A # ''[INFO] Scanning folder: '' @ folder_path], Inl e)
      | Inr entries \<Rightarrow>
          scan_entries w folder_path xml_mapping met_mapping entries
            [CHR 0x0A # ''[INFO] Scanning folder: '' @ folder_path] [])"

text \<open>
  What a run of \<^verbatim>\<open>process_folder\<close> leaves behind: the lines it printed, the calls of
  \<^verbatim>\<open>to_excel\<close> it made, each with its destination and the table handed over, and
  the exception that ended it, if one did. A call of \<^verbatim>\<open>to_excel\<close> has written its
  table when it returned; what a call that raised leaves at the destination is the
  library's matter and not part of the model.
\<close>

record run =
  printed :: "string list"
  to_excel_calls :: "(string \<times> table) list"
  raised :: "exn option"

definition process_folder ::
  "env \<Rightarrow> string \<Rightarrow> field_mapping \<Rightarrow> field_mapping \<Rightarrow> string \<Rightarrow> run" where
  "process_folder w folder_path xml_mapping met_mapping output_excel_path =
     (case scan_folder w folder_path xml_mapping met_mapping of
        (out, Inl e) \<Rightarrow> \<lparr>printed = out, to_excel_calls = [], raised = Some e\<rparr>
      | (out, Inr all_records) \<Rightarrow>
          if all_records \<noteq> []
          then (let df = data_frame all_records (all_columns xml_mapping met_mapping)
                in case to_excel w output_excel_path df of
                     Some e \<Rightarrow>
                       \<lparr>printed = out, to_excel_calls = [(output_excel_path, df)],
                        raised = Some e\<rparr>
                   | None \<Rightarrow>
                       \<lparr>printed = out @ [CHR 0x0A # ''[SUCCESS] Data exported to ''
                                          @ [CHR 0x27] @ output_excel_path @ [CHR 0x27]],
                        to_excel_calls = [(output_excel_path, df)], raised = None\<rparr>)
          else \<lparr>printed = out @ [CHR 0x0A
                              # ''[WARNING] No valid data extracted from the provided folder.''],
                to_excel_calls = [], raised = None\<rparr>)"

definition written :: "run \<Rightarrow> (string \<times> table) list" where
  \<comment> \<open>The tables written: those of the calls of \<^verbatim>\<open>to_excel\<close> that returned.\<close>
  "written r = (if raised r = None then to_excel_calls r else [])"

definition kept :: "field_record option outcome \<Rightarrow> field_record list" where
  \<comment> \<open>What one directory entry adds to \<open>all_records\<close>.\<close>
  "kept r = (case snd r of Inr (Some d) \<Rightarrow> if d = [] then [] else [d] | _ \<Rightarrow> [])"

section \<open>An example folder\<close>

text \<open>
  The theorems below hold for every environment. To run them on concrete input, here is
  a folder with two well-formed documents, one malformed document, one key-value file
  and one file of another kind. Its \<open>et_find\<close> evaluates the path expressions that the
  script's own mappings use: steps separated by \<^verbatim>\<open>/\<close>, where \<^verbatim>\<open>.\<close> is the
  element itself and a name selects the children with that tag. As the library does, it
  raises SyntaxError for a path that begins with \<^verbatim>\<open>/\<close>. Its \<open>to_excel\<close> writes to
  \<^verbatim>\<open>out.xlsx\<close> and to no other destination.
\<close>

definition step_select :: "string \<Rightarrow> element list \<Rightarrow> element list" where
  "step_select step nodes =
     (if step = ''.'' then nodes
      else concat (map (\<lambda>e. filter (\<lambda>c. elem_tag c = step) (elem_children e)) nodes))"

fun split_path :: "string \<Rightarrow> string list" where
  "split_path [] = [[]]"
| "split_path (c # cs) =
     (if c = CHR ''/'' then [] # split_path cs
      else (case split_path cs of [] \<Rightarrow> [[c]] | s # ss \<Rightarrow> (c # s) # ss))"

definition child_path_find :: "element \<Rightarrow> string \<Rightarrow> exn + element option" where
  "child_path_find root path =
     (if take 1 path = ''/'' then Inl (SyntaxError ''cannot use absolute path on element'')
      else (case fold step_select (split_path path) [root] of
              [] \<Rightarrow> Inr None
            | e # _ \<Rightarrow> Inr (Some e)))"

definition ann_root :: element where
  \<comment> \<open>\<^verbatim>\<open><r><details><name>Ann</name><age> 30 </age><nick/></details><contact/></r>\<close>\<close>
  "ann_root = Element ''r'' None
     [Element ''details'' None
        [Element ''name'' (Some ''Ann'') [], Element ''age'' (Some '' 30 '') [],
         Element ''nick'' None []],
      Element ''contact'' None []]"

definition bob_root :: element where
  \<comment> \<open>\<^verbatim>\<open><r><details><name>Bob</name></details><contact><email>b@x.com</email></contact></r>\<close>\<close>
  "bob_root = Element ''r'' None
     [Element ''details'' None [Element ''name'' (Some ''Bob'') []],
      Element ''contact'' None [Element ''email'' (Some ''b@x.com'') []]]"

definition example_xml_mapping :: field_mapping where
  "example_xml_mapping =
     [(''Full Name'', ''./details/name''), (''Age'', ''./details/age''),
      (''Email Address'', ''./contact/email'')]"

definition example_met_mapping :: field_mapping where
  "example_met_mapping =
     [(''Full Name'', ''Full Name''), (''Age'', ''Age''),
      (''Email Address'', ''Email Address'')]"

definition example_env :: env where
  "example_env =
     \<lparr>listdir = (\<lambda>d. if d = ''in''
                      then Inr [''a.xml'', ''notes.txt'', ''bad.XML'', ''c.met'', ''B.Xml'']
                      else if d = ''elsewhere'' then Inr []
                      else Inl (IOError ''[Errno 2] No such file or directory'')),
      et_parse = (\<lambda>p. if p = ''in/a.xml'' then Inr ann_root
                       else if p = ''in/B.Xml'' then Inr bob_root
                       else if p = ''in/bad.XML''
                       then Inl (ParseError ''no element found: line 1, column 0'')
                       else Inl (IOError ''[Errno 13] Permission denied'')),
      et_find = child_path_find,
      readlines = (\<lambda>p. if p = ''in/c.met''
                        then Inr [''Full Name: Bob'' @ [CHR 0x0A], ''Age : 25'' @ [CHR 0x0A],
                                  ''no separator here'' @ [CHR 0x0A],
                                  ''Age:  26:b  '' @ [CHR 0x0A]]
                        else Inl (IOError ''[Errno 2] No such file or directory'')),
      to_excel = (\<lambda>dest df. if dest = ''out.xlsx'' then None
                             else Some (IOError ''[Errno 2] No such file or directory''))\<rparr>"

definition locked_env :: env where
  \<comment> \<open>A folder whose first document cannot be opened.\<close>
  "locked_env = example_env\<lparr>listdir := (\<lambda>d. Inr [''locked.xml'', ''a.xml''])\<rparr>"

definition reversed_env :: env where
  \<comment> \<open>The example folder, enumerated in the opposite order.\<close>
  "reversed_env = example_env\<lparr>listdir := (\<lambda>d. map_sum id rev (listdir example_env d))\<rparr>"

section \<open>Facts about dictionaries\<close>

lemma dict_set_fresh: "k \<notin> fst ` set d \<Longrightarrow> dict_set d k v = d @ [(k, v)]"
  by (induction d) auto

lemma keys_dict_set:
  "map fst (dict_set d k v) = (if k \<in> fst ` set d then map fst d else map fst d @ [k])"
  by (induction d) (auto simp: rev_image_eqI)

lemma map_of_dict_set: "map_of (dict_set d k v) = (map_of d)(k \<mapsto> v)"
  by (induction d) (auto simp: fun_eq_iff)

text \<open>Filling a record from a mapping lists the mapping's columns in order.\<close>

lemma fold_dict_set_distinct:
  "distinct (map fst acc @ map fst m) \<Longrightarrow>
   fold (\<lambda>(c, p) r. dict_set r c (g p)) m acc = acc @ map (\<lambda>(c, p). (c, g p)) m"
proof (induction m arbitrary: acc)
  case Nil
  then show ?case by simp
next
  case (Cons a m)
  obtain c p where a: "a = (c, p)" by (cases a)
  from Cons.prems a have fresh: "c \<notin> fst ` set acc" by auto
  from Cons.prems a have "distinct (map fst (acc @ [(c, g p)]) @ map fst m)" by auto
  from Cons.IH [OF this] show ?case
    by (simp add: a dict_set_fresh [OF fresh])
qed

lemma map_of_pairs:
  "distinct (map fst m) \<Longrightarrow> (c, p) \<in> set m \<Longrightarrow>
   map_of (map (\<lambda>(c, p). (c, g p)) m) c = Some (g p)"
  by (induction m) (auto simp: rev_image_eqI)

lemma keys_fold_fromkeys:
  "distinct ks \<Longrightarrow>
   map fst (fold (\<lambda>k d. dict_set d k ()) ks acc)
     = map fst acc @ filter (\<lambda>k. k \<notin> set (map fst acc)) ks"
proof (induction ks arbitrary: acc)
  case Nil
  then show ?case by simp
next
  case (Cons k ks)
  then have k: "k \<notin> set ks" and d: "distinct ks" by auto
  show ?case
  proof (cases "k \<in> fst ` set acc")
    case True
    then show ?thesis using Cons.IH [OF d, of "dict_set acc k ()"]
      by (simp add: keys_dict_set)
  next
    case False
    have "filter (\<lambda>x. x \<noteq> k \<and> x \<notin> fst ` set acc) ks = filter (\<lambda>x. x \<notin> fst ` set acc) ks"
      using k by (intro filter_cong) auto
    then show ?thesis using False Cons.IH [OF d, of "dict_set acc k ()"]
      by (simp add: keys_dict_set conj_commute)
  qed
qed

lemma all_columns_eq:
  "is_dict xm \<Longrightarrow> is_dict mm \<Longrightarrow>
   all_columns xm mm = dict_keys xm @ filter (\<lambda>k. k \<notin> set (dict_keys xm)) (dict_keys mm)"
  by (simp add: all_columns_def fromkeys_def dict_keys_def is_dict_def keys_fold_fromkeys)

section \<open>The XML extractor\<close>

lemma xml_fields_ok:
  "\<forall>(c, p) \<in> set m. \<not> isl (et_find w root p) \<Longrightarrow>
   distinct (map fst acc @ map fst m) \<Longrightarrow>
   xml_fields w root m acc
     = Inr (acc @ map (\<lambda>(c, p). (c, node_text (projr (et_find w root p)))) m)"
proof (induction m arbitrary: acc)
  case Nil
  then show ?case by simp
next
  case (Cons a m)
  obtain c p where a: "a = (c, p)" by (cases a)
  from Cons.prems(1) a obtain element where f: "et_find w root p = Inr element"
    by (cases "et_find w root p") auto
  from Cons.prems(2) a have fresh: "c \<notin> fst ` set acc" by auto
  from Cons.prems(1) have rest: "\<forall>(c, p) \<in> set m. \<not> isl (et_find w root p)" by simp
  from Cons.prems(2) a
  have "distinct (map fst (acc @ [(c, node_text element)]) @ map fst m)" by auto
  from Cons.IH [OF rest this] show ?case
    by (simp add: a f dict_set_fresh [OF fresh])
qed

lemma xml_fields_raises:
  "(c, p) \<in> set m \<Longrightarrow> isl (et_find w root p) \<Longrightarrow> isl (xml_fields w root m acc)"
proof (induction m arbitrary: acc)
  case Nil
  then show ?case by simp
next
  case (Cons a m)
  obtain c' p' where a: "a = (c', p')" by (cases a)
  show ?case
  proof (cases "et_find w root p'")
    case (Inl e)
    then show ?thesis by (simp add: a)
  next
    case (Inr element)
    with Cons.prems a have "(c, p) \<in> set m" by auto
    from Cons.IH [OF this Cons.prems(2)] show ?thesis by (simp add: a Inr)
  qed
qed

lemma extract_from_xml_eq:
  assumes "et_parse w xml_file = Inr root" and "is_dict data_mapping"
    and "\<forall>(c, p) \<in> set data_mapping. \<not> isl (et_find w root p)"
  shows "extract_from_xml w xml_file data_mapping
           = ([], Inr (Some (map (\<lambda>(c, p). (c, node_text (projr (et_find w root p))))
                              data_mapping)))"
  using assms xml_fields_ok [of data_mapping w root "[]"]
  by (simp add: extract_from_xml_def xml_try_def is_dict_def)

lemma example_parse_a: "et_parse example_env ''in/a.xml'' = Inr ann_root"
  by (simp add: example_env_def)




lemma example_find_nick:
  "et_find example_env ann_root ''./details/nick'' = Inr (Some (Element ''nick'' None []))"
  by code_simp

lemma example_find_email: "et_find example_env ann_root ''./contact/email'' = Inr None"
  by code_simp





text \<open>
  C10. When the path of a column selects an element without text content, the record
  holds None for that column, which is also what it holds when the path selects no node:
  the record does not tell the two apart. (A record is returned when the library
  evaluates every path of the mapping.)
\<close>

theorem empty_element_recorded_as_null:
  assumes "et_parse w xml_file = Inr root" and "is_dict data_mapping"
    and "\<forall>(c, p) \<in> set data_mapping. \<not> isl (et_find w root p)"
    and "(column_name, xml_path) \<in> set data_mapping"
    and "et_find w root xml_path = Inr None
         \<or> (\<exists>node. et_find w root xml_path = Inr (Some node) \<and> elem_text node = None)"
  shows "\<exists>record. extract_from_xml w xml_file data_mapping = ([], Inr (Some record))
           \<and> dict_get record column_name = Some None"
proof -
  have "node_text (projr (et_find w root xml_path)) = None"
    using assms(5) by (auto simp: node_text_def)
  then show ?thesis
    using assms(2,4)
      map_of_pairs [of data_mapping column_name xml_path
                       "\<lambda>p. node_text (projr (et_find w root p))"]
    by (simp add: extract_from_xml_eq [OF assms(1,2,3)] dict_get_def is_dict_def)
qed

theorem empty_element_recorded_as_null_witness:
  "et_parse example_env ''in/a.xml'' = Inr ann_root
   \<and> is_dict [(''Nick'', ''./details/nick''), (''Email Address'', ''./contact/email'')]
   \<and> (\<exists>node. et_find example_env ann_root ''./details/nick'' = Inr (Some node)
               \<and> elem_text node = None)
   \<and> et_find example_env ann_root ''./contact/email'' = Inr None
   \<and> (\<exists>record. extract_from_xml example_env ''in/a.xml''
                   [(''Nick'', ''./details/nick''), (''Email Address'', ''./contact/email'')]
                   = ([], Inr (Some record))
          \<and> dict_get record ''Nick'' = Some None
          \<and> dict_get record ''Email Address'' = Some None)"
proof -
  let ?m = "[(''Nick'', ''./details/nick''), (''Email Address'', ''./contact/email'')]"
  have d: "is_dict ?m" by (simp add: is_dict_def)
  have acc: "\<forall>(c, p) \<in> set ?m. \<not> isl (et_find example_env ann_root p)"
    by (simp add: example_find_nick example_find_email)
  have nick: "et_find example_env ann_root ''./details/nick'' = Inr None
      \<or> (\<exists>node. et_find example_env ann_root ''./details/nick'' = Inr (Some node)
                 \<and> elem_text node = None)"
    by (simp add: example_find_nick)
  have email: "et_find example_env ann_root ''./contact/email'' = Inr None
      \<or> (\<exists>node. et_find example_env ann_root ''./contact/email'' = Inr (Some node)
                 \<and> elem_text node = None)"
    by (simp add: example_find_email)
  have "(''Nick'', ''./details/nick'') \<in> set ?m" by simp
  from empty_element_recorded_as_null [OF example_parse_a d acc this nick]
  obtain r1 where r1: "extract_from_xml example_env ''in/a.xml'' ?m = ([], Inr (Some r1))"
    "dict_get r1 ''Nick'' = Some None" by blast
  have "(''Email Address'', ''./contact/email'') \<in> set ?m" by simp
  from empty_element_recorded_as_null [OF example_parse_a d acc this email]
  obtain r2 where r2: "extract_from_xml example_env ''in/a.xml'' ?m = ([], Inr (Some r2))"
    "dict_get r2 ''Email Address'' = Some None" by blast
  from r1 r2 have "r1 = r2" by simp
  with r1 r2 d show ?thesis
    by (simp add: example_parse_a example_find_nick example_find_email)
qed

section \<open>The key-value extractor\<close>

text \<open>\<open>strip\<close> removes whitespace at both ends and nothing else.\<close>

lemma strip_decompose:
  "\<exists>pre post. s = pre @ strip s @ post
     \<and> (\<forall>c \<in> set pre. isspace c) \<and> (\<forall>c \<in> set post. isspace c)"
proof -
  let ?t = "dropWhile isspace s"
  have t: "?t = strip s @ rev (takeWhile isspace (rev ?t))"
    unfolding strip_def by (metis rev_append rev_rev_ident takeWhile_dropWhile_id)
  have "s = takeWhile isspace s @ ?t" by simp
  with t have "s = takeWhile isspace s @ strip s @ rev (takeWhile isspace (rev ?t))" by simp
  moreover have "\<forall>c \<in> set (takeWhile isspace s). isspace c"
    by (auto dest: set_takeWhileD)
  moreover have "\<forall>c \<in> set (rev (takeWhile isspace (rev ?t))). isspace c"
    by (auto dest: set_takeWhileD)
  ultimately show ?thesis by blast
qed

lemma strip_ends:
  assumes "strip s \<noteq> []"
  shows "\<not> isspace (hd (strip s)) \<and> \<not> isspace (last (strip s))"
proof -
  let ?t = "dropWhile isspace s"
  let ?u = "dropWhile isspace (rev ?t)"
  from assms have u: "?u \<noteq> []" by (simp add: strip_def)
  then have "\<not> isspace (hd ?u)" by (rule hd_dropWhile)
  then have l: "\<not> isspace (last (strip s))" using u by (simp add: strip_def last_rev)
  have "?t = [] \<Longrightarrow> ?u = []" by (metis dropWhile.simps(1) rev.simps(1))
  with u have t: "?t \<noteq> []" by blast
  then have ht: "\<not> isspace (hd ?t)" by (rule hd_dropWhile)
  have "?t = strip s @ rev (takeWhile isspace (rev ?t))"
    unfolding strip_def by (metis rev_append rev_rev_ident takeWhile_dropWhile_id)
  then have "hd ?t = hd (strip s @ rev (takeWhile isspace (rev ?t)))" by simp
  with assms have "hd ?t = hd (strip s)" by simp
  with ht l show ?thesis by simp
qed

lemma met_fold_lookup:
  "map_of (fold (\<lambda>line file_data.
             if CHR '':'' \<in> set line
             then (let (key, val) = split_first CHR '':'' line
                   in dict_set file_data (strip key) (strip val))
             else file_data) lines acc) k
   = (let hits = filter (\<lambda>l. CHR '':'' \<in> set l
                          \<and> strip (takeWhile (\<lambda>c. c \<noteq> CHR '':'') l) = k) lines
      in if hits = [] then map_of acc k
         else Some (strip (drop 1 (dropWhile (\<lambda>c. c \<noteq> CHR '':'') (last hits)))))"
proof (induction lines arbitrary: acc)
  case Nil
  then show ?case by simp
next
  case (Cons l lines)
  show ?case
    by (simp add: Cons.IH split_first_def map_of_dict_set Let_def)
qed

lemma met_file_data_lookup:
  "dict_get (met_file_data lines) k
   = (let hits = filter (\<lambda>l. CHR '':'' \<in> set l
                          \<and> strip (takeWhile (\<lambda>c. c \<noteq> CHR '':'') l) = k) lines
      in if hits = [] then None
         else Some (strip (drop 1 (dropWhile (\<lambda>c. c \<noteq> CHR '':'') (last hits)))))"
  unfolding dict_get_def met_file_data_def by (simp add: met_fold_lookup Let_def)

lemma extract_from_met_eq:
  assumes "readlines w met_file = Inr lines" and "is_dict data_mapping"
  shows "extract_from_met w met_file data_mapping
           = ([], Inr (Some (map (\<lambda>(c, p). (c, dict_get (met_file_data lines) p))
                              data_mapping)))"
  using assms fold_dict_set_distinct [of "[]" data_mapping "dict_get (met_file_data lines)"]
  by (simp add: extract_from_met_def is_dict_def)

text \<open>
  C5. For a readable key-value file, the record has the mapping's columns. The value of a
  column is found among the lines that contain a colon and whose part before the first
  colon, stripped, is the column's key: it is the stripped part after the first colon
  of the last such line, and None if there is no such line.
\<close>

theorem extract_from_met_record:
  assumes "readlines w met_file = Inr lines" and "is_dict data_mapping"
  shows "\<exists>record. extract_from_met w met_file data_mapping = ([], Inr (Some record))
           \<and> dict_keys record = dict_keys data_mapping
           \<and> (\<forall>(column_name, met_key) \<in> set data_mapping.
                dict_get record column_name
                  = Some (let hits = filter (\<lambda>l. CHR '':'' \<in> set l
                                  \<and> strip (takeWhile (\<lambda>c. c \<noteq> CHR '':'') l) = met_key) lines
                          in if hits = [] then None
                             else Some (strip (drop 1 (dropWhile (\<lambda>c. c \<noteq> CHR '':'')
                                                         (last hits))))))"
proof -
  let ?rcd = "map (\<lambda>(c, p). (c, dict_get (met_file_data lines) p)) data_mapping"
  have "extract_from_met w met_file data_mapping = ([], Inr (Some ?rcd))"
    using assms by (rule extract_from_met_eq)
  moreover have "dict_keys ?rcd = dict_keys data_mapping"
    by (simp add: dict_keys_def case_prod_unfold comp_def)
  moreover have "\<forall>(column_name, met_key) \<in> set data_mapping.
      dict_get ?rcd column_name = Some (dict_get (met_file_data lines) met_key)"
    using assms(2) map_of_pairs [of data_mapping _ _ "dict_get (met_file_data lines)"]
    by (auto simp: dict_get_def is_dict_def)
  ultimately show ?thesis
    unfolding met_file_data_lookup by blast
qed

lemma example_readlines:
  "readlines example_env ''in/c.met''
     = Inr [''Full Name: Bob'' @ [CHR 0x0A], ''Age : 25'' @ [CHR 0x0A],
            ''no separator here'' @ [CHR 0x0A], ''Age:  26:b  '' @ [CHR 0x0A]]"
  by (simp add: example_env_def)

lemma example_met_mapping_dict: "is_dict example_met_mapping"
  by (simp add: is_dict_def example_met_mapping_def)

theorem extract_from_met_record_witness:
  "readlines example_env ''in/c.met''
     = Inr [''Full Name: Bob'' @ [CHR 0x0A], ''Age : 25'' @ [CHR 0x0A],
            ''no separator here'' @ [CHR 0x0A], ''Age:  26:b  '' @ [CHR 0x0A]]
   \<and> is_dict example_met_mapping
   \<and> (\<exists>record. extract_from_met example_env ''in/c.met'' example_met_mapping
                   = ([], Inr (Some record))
        \<and> dict_keys record = [''Full Name'', ''Age'', ''Email Address'']
        \<and> dict_get record ''Full Name'' = Some (Some ''Bob'')
        \<and> dict_get record ''Age'' = Some (Some ''26:b'')
        \<and> dict_get record ''Email Address'' = Some None)"
  using extract_from_met_record [OF example_readlines example_met_mapping_dict]
  by (simp add: example_readlines is_dict_def example_met_mapping_def dict_keys_def
        strip_def isspace_def)

section \<open>The loop over the directory entries\<close>

lemma scan_entries_ok:
  "\<forall>f \<in> set es. \<not> isl (snd (process_file w fp xm mm f)) \<Longrightarrow>
   scan_entries w fp xm mm es out acc
     = (out @ concat (map (\<lambda>f. fst (process_file w fp xm mm f)) es),
        Inr (acc @ concat (map (\<lambda>f. kept (process_file w fp xm mm f)) es)))"
proof (induction es arbitrary: out acc)
  case Nil
  then show ?case by simp
next
  case (Cons f es)
  obtain p r where pf: "process_file w fp xm mm f = (p, r)" by (cases "process_file w fp xm mm f")
  with Cons.prems obtain v where r: "r = Inr v" by (cases r) auto
  from Cons.prems have rest: "\<forall>f \<in> set es. \<not> isl (snd (process_file w fp xm mm f))" by simp
  show ?case
    by (simp add: pf r Cons.IH [OF rest] kept_def truthy_def split: option.split)
qed

lemma scan_entries_raises:
  "\<exists>f \<in> set es. isl (snd (process_file w fp xm mm f)) \<Longrightarrow>
   isl (snd (scan_entries w fp xm mm es out acc))"
proof (induction es arbitrary: out acc)
  case Nil
  then show ?case by simp
next
  case (Cons f es)
  obtain p r where pf: "process_file w fp xm mm f = (p, r)" by (cases "process_file w fp xm mm f")
  show ?case
  proof (cases r)
    case (Inl e)
    then show ?thesis by (simp add: pf)
  next
    case (Inr v)
    with Cons.prems pf have "\<exists>f \<in> set es. isl (snd (process_file w fp xm mm f))" by auto
    from Cons.IH [OF this] show ?thesis by (simp add: pf Inr)
  qed
qed



text \<open>
  An entry whose lowered name does not end in \<^verbatim>\<open>.xml\<close> yields no record and
  prints nothing; one whose name does is handed to the XML extractor.
\<close>

lemma process_file_other_suffix:
  "\<not> endswith (lower filename) ''.xml'' \<Longrightarrow>
   process_file w folder_path xml_mapping met_mapping filename = ([], Inr None)"
  by (simp add: process_file_def)

lemma process_file_xml_suffix:
  "endswith (lower filename) ''.xml'' \<Longrightarrow>
   snd (process_file w folder_path xml_mapping met_mapping filename)
     = snd (extract_from_xml w (path_join folder_path filename) xml_mapping)"
  by (simp add: process_file_def split: prod.split)





text \<open>
  C2. The entry \<^verbatim>\<open>c.met\<close> of the example folder takes no branch of the loop: it
  yields no record and prints nothing, although the key-value extractor would return
  a record for it.
\<close>

theorem met_entry_not_dispatched:
  "process_file example_env ''in'' example_xml_mapping example_met_mapping ''c.met''
     = ([], Inr None)
   \<and> extract_from_met example_env ''in/c.met'' example_met_mapping
     = ([], Inr (Some [(''Full Name'', Some ''Bob''), (''Age'', Some ''26:b''),
                       (''Email Address'', None)]))"
  by code_simp

text \<open>
  C6. In a folder whose first entry is an XML file that cannot be opened, the IOError
  leaves \<open>process_folder\<close>: no error line is printed, the second entry is never
  looked at and nothing is written.
\<close>

theorem unreadable_xml_aborts_batch:
  "process_folder locked_env ''in'' example_xml_mapping example_met_mapping ''out.xlsx''
     = \<lparr>printed = [CHR 0x0A # ''[INFO] Scanning folder: in'',
                   ''  -> Extracting XML: locked.xml''],
        to_excel_calls = [],
        raised = Some (IOError ''[Errno 13] Permission denied'')\<rparr>"
  by code_simp

text \<open>
  The test \<^verbatim>\<open>if record:\<close> asks for more than a record that is not None. The
  extraction of a well-formed file with an empty mapping returns the empty record, and
  the loop does not append it.
\<close>

theorem empty_record_dropped:
  "extract_from_xml example_env (path_join ''in'' ''a.xml'') [] = ([], Inr (Some []))
   \<and> snd (scan_entries example_env ''in'' [] example_met_mapping [''a.xml''] [] []) = Inr []"
  by code_simp

text \<open>
  C8, as amended. In a run that no exception ends, the records collected are those that
  the entries' extractions returned, in order, one for each extraction that returned
  a record with at least one field. An extraction that returned None adds nothing, and
  neither does one that returned a record without fields.
\<close>

theorem nonempty_records_collected:
  assumes "\<forall>f \<in> set entries. \<not> isl (snd (process_file w folder_path xml_mapping met_mapping f))"
  shows "snd (scan_entries w folder_path xml_mapping met_mapping entries out all_records)
           = Inr (all_records
                  @ concat (map (\<lambda>f. case snd (process_file w folder_path xml_mapping
                                                  met_mapping f) of
                                        Inr (Some record) \<Rightarrow>
                                          if record = [] then [] else [record]
                                      | Inr None \<Rightarrow> []
                                      | Inl e \<Rightarrow> [])
                                 entries))"
proof -
  have "kept r = (case snd r of Inr (Some record) \<Rightarrow> if record = [] then [] else [record]
                   | Inr None \<Rightarrow> [] | Inl e \<Rightarrow> [])" for r
    by (simp add: kept_def split: sum.split option.split)
  then show ?thesis
    by (simp add: scan_entries_ok [OF assms])
qed

theorem nonempty_records_collected_witness:
  "\<not> isl (snd (process_file example_env ''in'' example_xml_mapping example_met_mapping
                   ''a.xml''))
   \<and> \<not> isl (snd (process_file example_env ''in'' example_xml_mapping example_met_mapping
                   ''bad.XML''))
   \<and> \<not> isl (snd (process_file example_env ''in'' example_xml_mapping example_met_mapping
                   ''c.met''))
   \<and> \<not> isl (snd (process_file example_env ''in'' example_xml_mapping example_met_mapping
                   ''B.Xml''))
   \<and> snd (scan_entries example_env ''in'' example_xml_mapping example_met_mapping
            [''a.xml'', ''bad.XML'', ''c.met'', ''B.Xml''] [] [])
     = Inr [[(''Full Name'', Some ''Ann''), (''Age'', Some '' 30 ''), (''Email Address'', None)],
            [(''Full Name'', Some ''Bob''), (''Age'', None),
             (''Email Address'', Some ''b@x.com'')]]"
proof -
  let ?es = "[''a.xml'', ''bad.XML'', ''c.met'', ''B.Xml'']"
  have a: "\<not> isl (snd (process_file example_env ''in'' example_xml_mapping
                          example_met_mapping ''a.xml''))" by code_simp
  have b: "\<not> isl (snd (process_file example_env ''in'' example_xml_mapping
                          example_met_mapping ''bad.XML''))" by code_simp
  have c: "\<not> isl (snd (process_file example_env ''in'' example_xml_mapping
                          example_met_mapping ''c.met''))" by code_simp
  have d: "\<not> isl (snd (process_file example_env ''in'' example_xml_mapping
                          example_met_mapping ''B.Xml''))" by code_simp
  from a b c d have ok: "\<forall>f \<in> set ?es.
      \<not> isl (snd (process_file example_env ''in'' example_xml_mapping example_met_mapping f))"
    by simp
  have v: "concat (map (\<lambda>f. case snd (process_file example_env ''in'' example_xml_mapping
                                        example_met_mapping f) of
                              Inr (Some record) \<Rightarrow> if record = [] then [] else [record]
                            | Inr None \<Rightarrow> []
                            | Inl e \<Rightarrow> [])
                        ?es)
     = [[(''Full Name'', Some ''Ann''), (''Age'', Some '' 30 ''), (''Email Address'', None)],
        [(''Full Name'', Some ''Bob''), (''Age'', None),
         (''Email Address'', Some ''b@x.com'')]]" by code_simp
  from nonempty_records_collected [OF ok, of "[]" "[]"] a b c d
  show ?thesis by (simp only: v append_Nil simp_thms)
qed

section \<open>The exported table\<close>

lemma to_excel_calls_cases:
  "to_excel_calls (process_folder w fp xm mm dest)
     = (case snd (scan_folder w fp xm mm) of
          Inl e \<Rightarrow> []
        | Inr recs \<Rightarrow> if recs = [] then [] else [(dest, data_frame recs (all_columns xm mm))])"
  by (cases "scan_folder w fp xm mm")
     (simp add: process_folder_def Let_def split: sum.split option.split)

lemma example_scan:
  "snd (scan_folder example_env ''in'' example_xml_mapping mm)
     = Inr [[(''Full Name'', Some ''Ann''), (''Age'', Some '' 30 ''), (''Email Address'', None)],
            [(''Full Name'', Some ''Bob''), (''Age'', None),
             (''Email Address'', Some ''b@x.com'')]]"
  by code_simp

lemma example_scan_empty:
  "snd (scan_folder example_env ''elsewhere'' example_xml_mapping mm) = Inr []"
  by code_simp

text \<open>
  Records are collected, the destination cannot be written: \<^verbatim>\<open>to_excel\<close> raises, the
  exception leaves \<open>process_folder\<close>, no table is written and no line reports success.
\<close>

theorem unwritable_destination_no_table:
  "snd (scan_folder example_env ''in'' example_xml_mapping example_met_mapping)
     = Inr [[(''Full Name'', Some ''Ann''), (''Age'', Some '' 30 ''), (''Email Address'', None)],
            [(''Full Name'', Some ''Bob''), (''Age'', None),
             (''Email Address'', Some ''b@x.com'')]]
   \<and> written (process_folder example_env ''in'' example_xml_mapping example_met_mapping
                ''nodir/out.xlsx'') = []
   \<and> raised (process_folder example_env ''in'' example_xml_mapping example_met_mapping
               ''nodir/out.xlsx'')
       = Some (IOError ''[Errno 2] No such file or directory'')
   \<and> last (printed (process_folder example_env ''in'' example_xml_mapping
                      example_met_mapping ''nodir/out.xlsx''))
       = ''  -> Extracting XML: B.Xml''"
  by code_simp

text \<open>
  C7, as amended. After the loop: with no record collected \<^verbatim>\<open>to_excel\<close> is not
  called, nothing is written and the last line printed is the warning. With records
  collected \<^verbatim>\<open>to_excel\<close> is called once, with the destination and the whole table, one
  row for each record. When that call returns, the table is written and the last line
  printed reports success; when it raises, the exception leaves \<open>process_folder\<close>,
  no table is written and nothing more is printed. A run that an exception ends before
  the loop is over never calls \<^verbatim>\<open>to_excel\<close>.
\<close>

theorem table_written_once_or_never:
  "(case snd (scan_folder w folder_path xml_mapping met_mapping) of
      Inr all_records \<Rightarrow>
        (if all_records = []
         then to_excel_calls (process_folder w folder_path xml_mapping met_mapping
                                output_excel_path) = []
              \<and> written (process_folder w folder_path xml_mapping met_mapping
                            output_excel_path) = []
              \<and> raised (process_folder w folder_path xml_mapping met_mapping
                           output_excel_path) = None
              \<and> last (printed (process_folder w folder_path xml_mapping met_mapping
                                 output_excel_path))
                = CHR 0x0A # ''[WARNING] No valid data extracted from the provided folder.''
         else to_excel_calls (process_folder w folder_path xml_mapping met_mapping
                                output_excel_path)
                = [(output_excel_path,
                    data_frame all_records (all_columns xml_mapping met_mapping))]
              \<and> length (rows (data_frame all_records (all_columns xml_mapping met_mapping)))
                = length all_records
              \<and> (case to_excel w output_excel_path
                          (data_frame all_records (all_columns xml_mapping met_mapping)) of
                    None \<Rightarrow>
                      written (process_folder w folder_path xml_mapping met_mapping
                                 output_excel_path)
                        = [(output_excel_path,
                            data_frame all_records (all_columns xml_mapping met_mapping))]
                      \<and> raised (process_folder w folder_path xml_mapping met_mapping
                                   output_excel_path) = None
                      \<and> last (printed (process_folder w folder_path xml_mapping met_mapping
                                         output_excel_path))
                        = CHR 0x0A # ''[SUCCESS] Data exported to '' @ [CHR 0x27]
                            @ output_excel_path @ [CHR 0x27]
                  | Some e \<Rightarrow>
                      written (process_folder w folder_path xml_mapping met_mapping
                                 output_excel_path) = []
                      \<and> raised (process_folder w folder_path xml_mapping met_mapping
                                   output_excel_path) = Some e
                      \<and> printed (process_folder w folder_path xml_mapping met_mapping
                                   output_excel_path)
                        = fst (scan_folder w folder_path xml_mapping met_mapping)))
    | Inl e \<Rightarrow>
        to_excel_calls (process_folder w folder_path xml_mapping met_mapping
                          output_excel_path) = []
        \<and> written (process_folder w folder_path xml_mapping met_mapping output_excel_path)
          = []
        \<and> raised (process_folder w folder_path xml_mapping met_mapping output_excel_path)
          = Some e)"
  by (cases "scan_folder w folder_path xml_mapping met_mapping")
     (simp add: process_folder_def written_def data_frame_def Let_def
        split: sum.split option.split)

theorem table_written_once_or_never_witness:
  "written (process_folder example_env ''elsewhere'' example_xml_mapping example_met_mapping
             ''out.xlsx'') = []
   \<and> last (printed (process_folder example_env ''elsewhere'' example_xml_mapping
                      example_met_mapping ''out.xlsx''))
       = CHR 0x0A # ''[WARNING] No valid data extracted from the provided folder.''
   \<and> written (process_folder example_env ''in'' example_xml_mapping example_met_mapping
               ''out.xlsx'')
       = [(''out.xlsx'',
           \<lparr>columns = [''Full Name'', ''Age'', ''Email Address''],
            rows = [[Some ''Ann'', Some '' 30 '', None],
                    [Some ''Bob'', None, Some ''b@x.com'']]\<rparr>)]
   \<and> raised (process_folder example_env ''in'' example_xml_mapping example_met_mapping
               ''out.xlsx'') = None
   \<and> to_excel_calls (process_folder example_env ''in'' example_xml_mapping
                       example_met_mapping ''nodir/out.xlsx'')
       = [(''nodir/out.xlsx'',
           \<lparr>columns = [''Full Name'', ''Age'', ''Email Address''],
            rows = [[Some ''Ann'', Some '' 30 '', None],
                    [Some ''Bob'', None, Some ''b@x.com'']]\<rparr>)]
   \<and> written (process_folder example_env ''in'' example_xml_mapping example_met_mapping
               ''nodir/out.xlsx'') = []
   \<and> raised (process_folder example_env ''in'' example_xml_mapping example_met_mapping
               ''nodir/out.xlsx'')
       = Some (IOError ''[Errno 2] No such file or directory'')
   \<and> to_excel_calls (process_folder locked_env ''in'' example_xml_mapping
                       example_met_mapping ''out.xlsx'') = []
   \<and> to_excel_calls (process_folder example_env ''nowhere'' example_xml_mapping
                       example_met_mapping ''out.xlsx'') = []"
proof -
  let ?df = "\<lparr>columns = [''Full Name'', ''Age'', ''Email Address''],
              rows = [[Some ''Ann'', Some '' 30 '', None],
                      [Some ''Bob'', None, Some ''b@x.com'']]\<rparr>"
  have l: "snd (scan_folder locked_env ''in'' example_xml_mapping example_met_mapping)
             = Inl (IOError ''[Errno 13] Permission denied'')" by code_simp
  have n: "snd (scan_folder example_env ''nowhere'' example_xml_mapping example_met_mapping)
             = Inl (IOError ''[Errno 2] No such file or directory'')" by code_simp
  have d: "data_frame
             [[(''Full Name'', Some ''Ann''), (''Age'', Some '' 30 ''), (''Email Address'', None)],
              [(''Full Name'', Some ''Bob''), (''Age'', None),
               (''Email Address'', Some ''b@x.com'')]]
             (all_columns example_xml_mapping example_met_mapping) = ?df" by code_simp
  have ok: "to_excel example_env ''out.xlsx'' ?df = None" by code_simp
  have no: "to_excel example_env ''nodir/out.xlsx'' ?df
              = Some (IOError ''[Errno 2] No such file or directory'')" by code_simp
  show ?thesis
    using table_written_once_or_never
            [of example_env "''elsewhere''" example_xml_mapping example_met_mapping "''out.xlsx''"]
          table_written_once_or_never
            [of example_env "''in''" example_xml_mapping example_met_mapping "''out.xlsx''"]
          table_written_once_or_never
            [of example_env "''in''" example_xml_mapping example_met_mapping
                "''nodir/out.xlsx''"]
          table_written_once_or_never
            [of locked_env "''in''" example_xml_mapping example_met_mapping "''out.xlsx''"]
          table_written_once_or_never
            [of example_env "''nowhere''" example_xml_mapping example_met_mapping "''out.xlsx''"]
    by (simp add: example_scan example_scan_empty l n d ok no)
qed

text \<open>
  C3. When at least one record is collected, the columns of the table handed to
  \<^verbatim>\<open>to_excel\<close> are the keys of the XML mapping followed by the keys of the key-value
  mapping that are not among them, each once. Neither the files nor the order of their
  enumeration enter this list. Every row has one cell for each column: the record's
  value for it, empty where the record has none. This table is the one written when
  the call returns.
\<close>

theorem exported_table_shape:
  assumes "is_dict xml_mapping" and "is_dict met_mapping"
    and "snd (scan_folder w folder_path xml_mapping met_mapping) = Inr all_records"
    and "all_records \<noteq> []"
  shows "\<exists>t. to_excel_calls (process_folder w folder_path xml_mapping met_mapping
                               output_excel_path)
                = [(output_excel_path, t)]
           \<and> written (process_folder w folder_path xml_mapping met_mapping output_excel_path)
                = (if to_excel w output_excel_path t = None then [(output_excel_path, t)]
                   else [])
           \<and> columns t = dict_keys xml_mapping
                 @ filter (\<lambda>k. k \<notin> set (dict_keys xml_mapping)) (dict_keys met_mapping)
           \<and> distinct (columns t)
           \<and> rows t = map (\<lambda>record. map (\<lambda>c. case dict_get record c of
                                                   Some v \<Rightarrow> v | None \<Rightarrow> None) (columns t))
                           all_records
           \<and> (\<forall>row \<in> set (rows t). length row = length (columns t))"
proof -
  let ?t = "data_frame all_records (all_columns xml_mapping met_mapping)"
  let ?r = "process_folder w folder_path xml_mapping met_mapping output_excel_path"
  have w: "to_excel_calls ?r = [(output_excel_path, ?t)]"
    using assms(3,4) by (simp add: to_excel_calls_cases)
  have wr: "written ?r = (if to_excel w output_excel_path ?t = None
                          then [(output_excel_path, ?t)] else [])"
    using assms(3,4)
    by (cases "scan_folder w folder_path xml_mapping met_mapping")
       (auto simp: written_def process_folder_def Let_def split: option.split)
  have c: "columns ?t = dict_keys xml_mapping
             @ filter (\<lambda>k. k \<notin> set (dict_keys xml_mapping)) (dict_keys met_mapping)"
    using assms(1,2) by (simp add: data_frame_def all_columns_eq)
  have d: "distinct (columns ?t)"
    unfolding c using assms(1,2) by (auto simp: is_dict_def dict_keys_def)
  have r: "rows ?t = map (\<lambda>record. map (\<lambda>c. case dict_get record c of
                                                Some v \<Rightarrow> v | None \<Rightarrow> None) (columns ?t))
                         all_records"
    by (simp add: data_frame_def)
  have l: "\<forall>row \<in> set (rows ?t). length row = length (columns ?t)"
    by (auto simp: data_frame_def)
  from w wr c d r l show ?thesis by blast
qed

theorem exported_table_shape_witness:
  "is_dict example_xml_mapping \<and> is_dict [(''Age'', ''Age''), (''Source'', ''Source'')]
   \<and> written (process_folder example_env ''in'' example_xml_mapping
                [(''Age'', ''Age''), (''Source'', ''Source'')] ''out.xlsx'')
       = [(''out.xlsx'',
           \<lparr>columns = [''Full Name'', ''Age'', ''Email Address'', ''Source''],
            rows = [[Some ''Ann'', Some '' 30 '', None, None],
                    [Some ''Bob'', None, Some ''b@x.com'', None]]\<rparr>)]"
proof -
  let ?mm = "[(''Age'', ''Age''), (''Source'', ''Source'')] :: field_mapping"
  let ?r = "process_folder example_env ''in'' example_xml_mapping ?mm ''out.xlsx''"
  have d1: "is_dict example_xml_mapping" by (simp add: is_dict_def example_xml_mapping_def)
  have d2: "is_dict ?mm" by (simp add: is_dict_def)
  have ne: "[[(''Full Name'', Some ''Ann''), (''Age'', Some '' 30 ''), (''Email Address'', None)],
            [(''Full Name'', Some ''Bob''), (''Age'', None),
             (''Email Address'', Some ''b@x.com'')]] \<noteq> ([] :: field_record list)" by simp
  have ok: "to_excel example_env ''out.xlsx'' t = None" for t
    by (simp add: example_env_def)
  from exported_table_shape [OF d1 d2 example_scan ne, of "''out.xlsx''"]
  obtain t where t: "written ?r = (if to_excel example_env ''out.xlsx'' t = None
                                   then [(''out.xlsx'', t)] else [])"
    and c: "columns t = dict_keys example_xml_mapping
              @ filter (\<lambda>k. k \<notin> set (dict_keys example_xml_mapping)) (dict_keys ?mm)"
    and r: "rows t = map (\<lambda>record. map (\<lambda>c. case dict_get record c of
                                               Some v \<Rightarrow> v | None \<Rightarrow> None) (columns t))
              [[(''Full Name'', Some ''Ann''), (''Age'', Some '' 30 ''), (''Email Address'', None)],
               [(''Full Name'', Some ''Bob''), (''Age'', None),
                (''Email Address'', Some ''b@x.com'')]]"
    by blast
  have c': "columns t = [''Full Name'', ''Age'', ''Email Address'', ''Source'']"
    unfolding c by (simp add: dict_keys_def example_xml_mapping_def)
  have r': "rows t = [[Some ''Ann'', Some '' 30 '', None, None],
                      [Some ''Bob'', None, Some ''b@x.com'', None]]"
    unfolding r c' by (simp add: dict_get_def)
  from c' r' have "t = \<lparr>columns = [''Full Name'', ''Age'', ''Email Address'', ''Source''],
            rows = [[Some ''Ann'', Some '' 30 '', None, None],
                    [Some ''Bob'', None, Some ''b@x.com'', None]]\<rparr>" by simp
  with t d1 d2 show ?thesis by (simp add: ok)
qed

lemma xml_fields_cong:
  "et_find w1 = et_find w2 \<Longrightarrow> xml_fields w1 root m acc = xml_fields w2 root m acc"
  by (induction m arbitrary: acc) (auto split: sum.split)

lemma process_file_cong:
  "et_parse w1 = et_parse w2 \<Longrightarrow> et_find w1 = et_find w2 \<Longrightarrow>
   process_file w1 fp xm mm f = process_file w2 fp xm mm f"
proof -
  assume p: "et_parse w1 = et_parse w2" and f: "et_find w1 = et_find w2"
  have "xml_try w1 = xml_try w2"
    by (intro ext) (simp add: xml_try_def p xml_fields_cong [OF f] split: sum.split)
  then have "extract_from_xml w1 = extract_from_xml w2"
    by (intro ext) (simp add: extract_from_xml_def)
  then show ?thesis by (simp add: process_file_def)
qed

lemma mset_concat_map_cong:
  assumes "mset xs = mset ys"
  shows "mset (concat (map g xs)) = mset (concat (map g ys))"
proof -
  have "mset (concat (map g zs)) = sum_mset (image_mset (\<lambda>z. mset (g z)) (mset zs))" for zs
    by (induction zs) simp_all
  with assms show ?thesis by simp
qed

text \<open>
  C9. Two runs over a folder with the same entries, whatever the order in which they are
  enumerated, the same files and the same mappings hand to \<^verbatim>\<open>to_excel\<close> the same
  destination and tables with the same columns and the same rows up to their order; and
  if one run hands over nothing, so does the other.
\<close>

theorem rerun_same_rows_and_columns:
  assumes "map_sum id mset (listdir w1 fp) = map_sum id mset (listdir w2 fp)"
    and "et_parse w1 = et_parse w2" and "et_find w1 = et_find w2"
  shows "map (\<lambda>(p, t). (p, columns t, mset (rows t)))
             (to_excel_calls (process_folder w1 fp xm mm dest))
       = map (\<lambda>(p, t). (p, columns t, mset (rows t)))
             (to_excel_calls (process_folder w2 fp xm mm dest))"
proof (cases "listdir w1 fp")
  case (Inl e)
  with assms(1) have "listdir w2 fp = Inl e" by (cases "listdir w2 fp") simp_all
  with Inl show ?thesis by (simp add: to_excel_calls_cases scan_folder_def)
next
  case (Inr es1)
  with assms(1) obtain es2 where es2: "listdir w2 fp = Inr es2" and m: "mset es1 = mset es2"
    by (cases "listdir w2 fp") simp_all
  let ?hdr = "[CHR 0x0A # ''[INFO] Scanning folder: '' @ fp]"
  have pf: "process_file w1 fp xm mm = process_file w2 fp xm mm"
    using process_file_cong [OF assms(2,3)] by (intro ext)
  from m have sets: "set es1 = set es2" by (rule mset_eq_setD)
  show ?thesis
  proof (cases "\<exists>f \<in> set es1. isl (snd (process_file w1 fp xm mm f))")
    case True
    then have "isl (snd (scan_folder w1 fp xm mm))"
      unfolding scan_folder_def Inr by (simp add: scan_entries_raises)
    moreover from True sets pf have "\<exists>f \<in> set es2. isl (snd (process_file w2 fp xm mm f))"
      by simp
    then have "isl (snd (scan_folder w2 fp xm mm))"
      unfolding scan_folder_def es2 by (simp add: scan_entries_raises)
    ultimately show ?thesis
      by (simp add: to_excel_calls_cases isl_def split: sum.split) auto
  next
    case False
    then have ok1: "\<forall>f \<in> set es1. \<not> isl (snd (process_file w1 fp xm mm f))" by simp
    with sets pf have ok2: "\<forall>f \<in> set es2. \<not> isl (snd (process_file w2 fp xm mm f))" by simp
    let ?r1 = "concat (map (\<lambda>f. kept (process_file w1 fp xm mm f)) es1)"
    let ?r2 = "concat (map (\<lambda>f. kept (process_file w2 fp xm mm f)) es2)"
    have s1: "snd (scan_folder w1 fp xm mm) = Inr ?r1"
      by (simp add: scan_folder_def Inr scan_entries_ok [OF ok1])
    have s2: "snd (scan_folder w2 fp xm mm) = Inr ?r2"
      by (simp add: scan_folder_def es2 scan_entries_ok [OF ok2])
    have mr: "mset ?r1 = mset ?r2"
      unfolding pf using m by (rule mset_concat_map_cong)
    then have e: "?r1 = [] \<longleftrightarrow> ?r2 = []" by (metis mset_zero_iff)
    from mr have "mset (map h ?r1) = mset (map h ?r2)"
      for h :: "field_record \<Rightarrow> string option list"
      by simp
    then show ?thesis
      using e by (simp add: to_excel_calls_cases s1 s2 data_frame_def del: mset_map)
  qed
qed

theorem rerun_same_rows_and_columns_witness:
  "map_sum id mset (listdir example_env ''in'') = map_sum id mset (listdir reversed_env ''in'')
   \<and> et_parse example_env = et_parse reversed_env
   \<and> et_find example_env = et_find reversed_env
   \<and> listdir example_env ''in'' \<noteq> listdir reversed_env ''in''
   \<and> map (\<lambda>(p, t). (p, columns t, mset (rows t)))
         (to_excel_calls (process_folder example_env ''in'' example_xml_mapping
                            example_met_mapping ''out.xlsx''))
     = map (\<lambda>(p, t). (p, columns t, mset (rows t)))
         (to_excel_calls (process_folder reversed_env ''in'' example_xml_mapping
                            example_met_mapping ''out.xlsx''))
   \<and> to_excel_calls (process_folder reversed_env ''in'' example_xml_mapping
                       example_met_mapping ''out.xlsx'')
     = [(''out.xlsx'',
         \<lparr>columns = [''Full Name'', ''Age'', ''Email Address''],
          rows = [[Some ''Bob'', None, Some ''b@x.com''],
                  [Some ''Ann'', Some '' 30 '', None]]\<rparr>)]"
proof -
  have m: "map_sum id mset (listdir example_env ''in'')
             = map_sum id mset (listdir reversed_env ''in'')"
    by (simp add: reversed_env_def example_env_def)
  have p: "et_parse example_env = et_parse reversed_env" by (simp add: reversed_env_def)
  have f: "et_find example_env = et_find reversed_env" by (simp add: reversed_env_def)
  have n: "listdir example_env ''in'' \<noteq> listdir reversed_env ''in''" by code_simp
  have c: "to_excel_calls (process_folder reversed_env ''in'' example_xml_mapping
                       example_met_mapping ''out.xlsx'')
     = [(''out.xlsx'',
         \<lparr>columns = [''Full Name'', ''Age'', ''Email Address''],
          rows = [[Some ''Bob'', None, Some ''b@x.com''],
                  [Some ''Ann'', Some '' 30 '', None]]\<rparr>)]" by code_simp
  from rerun_same_rows_and_columns [OF m p f, of example_xml_mapping example_met_mapping
      "''out.xlsx''"] m p f n c
  show ?thesis by simp
qed

end
